theory Spec2Isabelle
  imports Complex_Main
begin

section \<open>The Monty Hall notebook\<close>

text \<open>
  The notebook \<^verbatim>\<open>discussion-exercise-2018-09-24.ipynb\<close> draws two columns of
  \<^verbatim>\<open>num_trials\<close> doors each (\<^verbatim>\<open>df_car['car_under']\<close> and
  \<^verbatim>\<open>df_picked['picked']\<close>, every entry one of 0, 1, 2), then evaluates the
  stay strategy (cell 4) and the switch strategy (cell 6) on them. The random draw is
  the input of the model: a column is an \<open>int list\<close>, and both columns have length
  \<^verbatim>\<open>num_trials\<close>.
\<close>

subsection \<open>Python and pandas operations the notebook calls\<close>

text \<open>The exceptions the operations below can raise.\<close>

datatype py_error = ValueError | IndexError | KeyError

text \<open>A computation either raises (\<open>Inl\<close>) or returns (\<open>Inr\<close>); a raise ends the cell.\<close>

definition bind_err :: "py_error + 'a \<Rightarrow> ('a \<Rightarrow> py_error + 'b) \<Rightarrow> py_error + 'b" where
  "bind_err m f = (case m of Inl e \<Rightarrow> Inl e | Inr x \<Rightarrow> f x)"

text \<open>
  \<^verbatim>\<open>options.remove(x)\<close>: drops the first occurrence of \<open>x\<close>; raises ValueError when
  \<open>x\<close> is not in the list.
\<close>

definition list_remove :: "int list \<Rightarrow> int \<Rightarrow> py_error + int list" where
  "list_remove xs x = (if x \<in> set xs then Inr (remove1 x xs) else Inl ValueError)"

text \<open>
  \<^verbatim>\<open>options[i]\<close> for the literal indices 0 and 1 the notebook uses: raises IndexError
  past the end of the list.
\<close>

definition list_getitem :: "int list \<Rightarrow> nat \<Rightarrow> py_error + int" where
  "list_getitem xs i = (if i < length xs then Inr (xs ! i) else Inl IndexError)"

text \<open>
  \<^verbatim>\<open>a == b\<close> on two Series with the default index: elementwise when the lengths
  agree; pandas refuses to compare Series that are not identically labelled.
\<close>

definition series_eq :: "int list \<Rightarrow> int list \<Rightarrow> py_error + bool list" where
  "series_eq xs ys =
     (if length xs = length ys then Inr (map2 (=) xs ys) else Inl ValueError)"

text \<open>
  \<^verbatim>\<open>value_counts()\<close>: in the notebook's words, "a series with the unique values as
  the index and the number of occurences of that value as the object". A value that
  does not occur has no entry.
\<close>

definition value_counts :: "'a list \<Rightarrow> ('a \<rightharpoonup> nat)" where
  "value_counts xs = (\<lambda>v. if v \<in> set xs then Some (count_list xs v) else None)"

text \<open>\<^verbatim>\<open>series[label]\<close>: raises KeyError when the index does not hold the label.\<close>

definition series_getitem :: "('k \<rightharpoonup> 'v) \<Rightarrow> 'k \<Rightarrow> py_error + 'v" where
  "series_getitem s k = (case s k of None \<Rightarrow> Inl KeyError | Some v \<Rightarrow> Inr v)"

text \<open>
  The quotient of a numpy integer by \<^verbatim>\<open>num_trials\<close> is a float64. The model keeps
  the exact quotient as a rational (the float is the nearest representable number to
  it); a zero divisor does not raise in numpy but gives \<open>inf\<close> or \<open>nan\<close>.
\<close>

datatype np_float = Finite rat | PosInf | NotANumber

definition true_divide :: "nat \<Rightarrow> nat \<Rightarrow> np_float" where
  "true_divide a b =
     (if b = 0 then (if a = 0 then NotANumber else PosInf)
      else Finite (of_nat a / of_nat b))"

text \<open>
  \<^verbatim>\<open>df.apply(f, axis=1)\<close>: \<open>f\<close> on every row in order; the first raise ends the
  call.
\<close>

primrec apply_axis1 :: "('a \<Rightarrow> py_error + 'b) \<Rightarrow> 'a list \<Rightarrow> py_error + 'b list" where
  "apply_axis1 f [] = Inr []"
| "apply_axis1 f (r # rs) =
     bind_err (f r) (\<lambda>v. bind_err (apply_axis1 f rs) (\<lambda>vs. Inr (v # vs)))"

subsection \<open>Cell 4: the stay strategy\<close>

text \<open>
  \<^verbatim>\<open>num_times_we_got_the_car = (df_car['car_under'] == df_picked['picked']).value_counts()[True]\<close>
\<close>

definition num_times_we_got_the_car_staying :: "int list \<Rightarrow> int list \<Rightarrow> py_error + nat" where
  "num_times_we_got_the_car_staying df_car df_picked =
     bind_err (series_eq df_car df_picked) (\<lambda>eq. series_getitem (value_counts eq) True)"

text \<open>\<^verbatim>\<open>approximate_P_staying = num_times_we_got_the_car / num_trials\<close>\<close>

definition approximate_P_staying :: "nat \<Rightarrow> int list \<Rightarrow> int list \<Rightarrow> py_error + np_float" where
  "approximate_P_staying num_trials df_car df_picked =
     bind_err (num_times_we_got_the_car_staying df_car df_picked)
       (\<lambda>n. Inr (true_divide n num_trials))"

subsection \<open>Cell 6: the switch strategy\<close>

text \<open>
  The argument of the second \<^verbatim>\<open>options.remove\<close> of \<^verbatim>\<open>change_mind\<close>, the door
  the presenter opens:
  \<^verbatim>\<open>options[1] if options[0] == car_under else options[0]\<close>.
  Python evaluates the condition first, then the chosen branch.
\<close>

definition goat_to_remove :: "int list \<Rightarrow> int \<Rightarrow> py_error + int" where
  "goat_to_remove options car_under =
     bind_err (list_getitem options 0)
       (\<lambda>first. if first = car_under then list_getitem options 1 else list_getitem options 0)"

text \<open>
  \<^verbatim>\<open>
  def change_mind(row):
      picked = row[0]
      car_under = row[1]
      options = [0,1,2]
      options.remove(picked)
      options.remove(options[1] if options[0] == car_under else options[0])
      return options[0]
  \<close>
  A row is the pair \<open>(picked, car_under)\<close>.
\<close>

definition change_mind :: "int \<times> int \<Rightarrow> py_error + int" where
  "change_mind row =
     (let picked = fst row; car_under = snd row; options = [0, 1, 2] in
      bind_err (list_remove options picked) (\<lambda>options.
      bind_err (goat_to_remove options car_under) (\<lambda>goat.
      bind_err (list_remove options goat) (\<lambda>options.
      list_getitem options 0))))"

text \<open>
  The door \<^verbatim>\<open>change_mind\<close> removes as the goat on a row: its run up to the argument
  of the second removal.
\<close>

definition revealed_goat_door :: "int \<times> int \<Rightarrow> py_error + int" where
  "revealed_goat_door row =
     (let picked = fst row; car_under = snd row; options = [0, 1, 2] in
      bind_err (list_remove options picked) (\<lambda>options.
      goat_to_remove options car_under))"

text \<open>
  \<^verbatim>\<open>df_picked['car_under'] = df_car\<close> puts the two columns next to each other (both
  have \<^verbatim>\<open>num_trials\<close> rows), and
  \<^verbatim>\<open>df_changed_mind = df_picked.apply(change_mind,axis=1)\<close>.
\<close>

definition df_changed_mind :: "int list \<Rightarrow> int list \<Rightarrow> py_error + int list" where
  "df_changed_mind df_car df_picked = apply_axis1 change_mind (zip df_picked df_car)"

text \<open>
  \<^verbatim>\<open>num_times_we_got_the_car = (df_car['car_under'] == df_changed_mind).value_counts()[True]\<close>
\<close>

definition num_times_we_got_the_car_switching :: "int list \<Rightarrow> int list \<Rightarrow> py_error + nat" where
  "num_times_we_got_the_car_switching df_car df_picked =
     bind_err (df_changed_mind df_car df_picked) (\<lambda>changed.
     bind_err (series_eq df_car changed) (\<lambda>eq.
     series_getitem (value_counts eq) True))"

text \<open>\<^verbatim>\<open>approximate_P_switching = num_times_we_got_the_car / num_trials\<close>\<close>

definition approximate_P_switching :: "nat \<Rightarrow> int list \<Rightarrow> int list \<Rightarrow> py_error + np_float" where
  "approximate_P_switching num_trials df_car df_picked =
     bind_err (num_times_we_got_the_car_switching df_car df_picked)
       (\<lambda>n. Inr (true_divide n num_trials))"

subsection \<open>The whole notebook\<close>

text \<open>Cell 4, then cell 6; the result is the pair of displayed probabilities.\<close>

definition notebook :: "nat \<Rightarrow> int list \<Rightarrow> int list \<Rightarrow> py_error + np_float \<times> np_float" where
  "notebook num_trials df_car df_picked =
     bind_err (approximate_P_staying num_trials df_car df_picked) (\<lambda>p_stay.
     bind_err (approximate_P_switching num_trials df_car df_picked) (\<lambda>p_switch.
     Inr (p_stay, p_switch)))"

section \<open>The switch resolver\<close>

lemmas change_mind_defs =
  change_mind_def revealed_goat_door_def goat_to_remove_def list_remove_def
  list_getitem_def bind_err_def

text \<open>
  Claim C1. For every initial pick and prize door among the doors 0, 1, 2,
  \<open>change_mind\<close> returns the prize door whenever the prize door is not the initial pick.
\<close>

theorem change_mind_finds_prize:
  assumes "initial_pick \<in> {0, 1, 2}" and "prize_door \<in> {0, 1, 2}"
    and "prize_door \<noteq> initial_pick"
  shows "change_mind (initial_pick, prize_door) = Inr prize_door"
  using assms by (auto simp: change_mind_defs)

theorem change_mind_finds_prize_witness:
  "(0::int) \<in> {0, 1, 2} \<and> (1::int) \<in> {0, 1, 2} \<and> (1::int) \<noteq> 0 \<and> change_mind (0, 1) = Inr 1"
  using change_mind_finds_prize [of 0 1] by simp

text \<open>
  Claim C2. For every initial pick and prize door among the doors 0, 1, 2, the
  switched pick that \<open>change_mind\<close> returns, the initial pick and the door removed as
  the goat are pairwise distinct, and together they are exactly the doors 0, 1, 2.
\<close>

theorem doors_partitioned:
  assumes "initial_pick \<in> {0, 1, 2}" and "prize_door \<in> {0, 1, 2}"
  shows "\<exists>switched_pick goat.
           change_mind (initial_pick, prize_door) = Inr switched_pick \<and>
           revealed_goat_door (initial_pick, prize_door) = Inr goat \<and>
           switched_pick \<noteq> initial_pick \<and> switched_pick \<noteq> goat \<and> initial_pick \<noteq> goat \<and>
           {initial_pick, goat, switched_pick} = {0, 1, 2}"
  using assms by (auto simp: change_mind_defs)

theorem doors_partitioned_witness:
  "change_mind (1, 1) = Inr 2 \<and> revealed_goat_door (1, 1) = Inr 0 \<and>
   {1, 0, 2} = {0, 1, 2::int}"
proof -
  have "\<exists>s g. change_mind (1, 1) = Inr s \<and> revealed_goat_door (1, 1) = Inr g \<and>
          s \<noteq> 1 \<and> s \<noteq> g \<and> 1 \<noteq> g \<and> {1, g, s} = {0, 1, 2}"
    using doors_partitioned [of 1 1] by simp
  then show ?thesis
    by (auto simp: change_mind_defs)
qed

text \<open>
  Claim C3. \<open>change_mind\<close> is total on the doors 0, 1, 2: for every initial pick and
  prize door among them it returns a door among 0, 1, 2; neither removal nor the
  final indexing raises.
\<close>

theorem change_mind_total:
  assumes "initial_pick \<in> {0, 1, 2}" and "prize_door \<in> {0, 1, 2}"
  shows "\<exists>door. change_mind (initial_pick, prize_door) = Inr door \<and> door \<in> {0, 1, 2}"
  using assms by (auto simp: change_mind_defs)

theorem change_mind_total_witness:
  "\<exists>door. change_mind (2, 0) = Inr door \<and> door \<in> {0, 1, 2}"
  using change_mind_total [of 2 0] by simp

text \<open>
  Claim C10. In the tie case, where the prize is behind the picked door \<open>p\<close> (one of
  0, 1, 2), \<open>change_mind\<close> returns the largest of the two other doors: the lower one
  is removed as the goat.
\<close>

theorem change_mind_tie_break:
  assumes "p \<in> {0, 1, 2}"
  shows "change_mind (p, p) = Inr (Max ({0, 1, 2} - {p}))"
proof -
  have others: "{0, 1, 2} - {0} = {1, 2::int}" "{0, 1, 2} - {1} = {0, 2::int}"
    "{0, 1, 2} - {2} = {0, 1::int}"
    by auto
  from assms consider "p = 0" | "p = 1" | "p = 2"
    by auto
  then show ?thesis
    by cases (simp_all add: change_mind_defs others)
qed

theorem change_mind_tie_break_witness:
  "(2::int) \<in> {0, 1, 2} \<and> change_mind (2, 2) = Inr 1"
proof -
  have "change_mind (2, 2) = Inr (Max ({0, 1, 2} - {2}))"
    using change_mind_tie_break [of 2] by simp
  moreover have "{0, 1, 2} - {2} = {0, 1::int}"
    by auto
  ultimately show ?thesis
    by simp
qed

section \<open>The two evaluations\<close>

lemmas stay_defs =
  approximate_P_staying_def num_times_we_got_the_car_staying_def series_eq_def
  value_counts_def series_getitem_def true_divide_def bind_err_def

lemmas switch_defs =
  approximate_P_switching_def num_times_we_got_the_car_switching_def df_changed_mind_def
  series_eq_def value_counts_def series_getitem_def true_divide_def

subsection \<open>What the evaluations compute\<close>

text \<open>
  Looking up \<open>True\<close> in the value counts of a boolean column gives the number of
  \<open>True\<close> entries when there is one, and raises KeyError when there is none.
\<close>

lemma series_count_True:
  "series_getitem (value_counts (map f zs)) True =
     (if filter f zs = [] then Inl KeyError else Inr (length (filter f zs)))"
proof -
  have c: "count_list (map f zs) True = length (filter f zs)"
    by (induction zs) auto
  have m: "True \<in> set (map f zs) \<longleftrightarrow> filter f zs \<noteq> []"
    by (induction zs) auto
  show ?thesis
    by (simp add: series_getitem_def value_counts_def c m del: set_map)
qed

lemma stay_count:
  assumes "length df_car = length df_picked"
  shows "num_times_we_got_the_car_staying df_car df_picked =
     (if filter (\<lambda>(c, p). c = p) (zip df_car df_picked) = [] then Inl KeyError
      else Inr (length (filter (\<lambda>(c, p). c = p) (zip df_car df_picked))))"
  using assms
  by (simp add: num_times_we_got_the_car_staying_def series_eq_def bind_err_def
      series_count_True)

text \<open>The stay evaluation on two columns of \<open>num_trials\<close> entries.\<close>

lemma stay_value:
  assumes "length df_car = num_trials" and "length df_picked = num_trials"
  shows "approximate_P_staying num_trials df_car df_picked =
     (if filter (\<lambda>(c, p). c = p) (zip df_car df_picked) = [] then Inl KeyError
      else Inr (Finite (of_nat (length (filter (\<lambda>(c, p). c = p) (zip df_car df_picked)))
                          / of_nat num_trials)))"
proof (cases "filter (\<lambda>(c, p). c = p) (zip df_car df_picked) = []")
  case True
  then show ?thesis
    using assms by (simp add: approximate_P_staying_def stay_count bind_err_def)
next
  case False
  then have "zip df_car df_picked \<noteq> []"
    by auto
  then have "num_trials \<noteq> 0"
    using assms by auto
  then show ?thesis
    using assms False
    by (simp add: approximate_P_staying_def stay_count bind_err_def true_divide_def)
qed

text \<open>On a row of doors the switched pick is the prize door exactly when the pick was not.\<close>

lemma change_mind_row:
  assumes "p \<in> {0, 1, 2}" and "c \<in> {0, 1, 2}"
  shows "\<exists>d. change_mind (p, c) = Inr d \<and> (c = d \<longleftrightarrow> c \<noteq> p)"
  using assms by (auto simp: change_mind_defs)

lemma df_changed_mind_doors:
  assumes "length df_car = length df_picked"
    and "set df_car \<subseteq> {0, 1, 2}" and "set df_picked \<subseteq> {0, 1, 2}"
  shows "\<exists>changed. df_changed_mind df_car df_picked = Inr changed \<and>
           length changed = length df_car \<and>
           map2 (=) df_car changed = map (\<lambda>(c, p). c \<noteq> p) (zip df_car df_picked)"
  using assms
proof (induction df_car df_picked rule: list_induct2)
  case Nil
  then show ?case
    by (simp add: df_changed_mind_def)
next
  case (Cons c cs p ps)
  then obtain changed where tl: "df_changed_mind cs ps = Inr changed"
    "length changed = length cs"
    "map2 (=) cs changed = map (\<lambda>(c, p). c \<noteq> p) (zip cs ps)"
    by auto
  from Cons.prems obtain d where hd: "change_mind (p, c) = Inr d" "c = d \<longleftrightarrow> c \<noteq> p"
    using change_mind_row [of p c] by auto
  have "df_changed_mind (c # cs) (p # ps) = Inr (d # changed)"
    using tl(1) hd(1) by (simp add: df_changed_mind_def bind_err_def)
  then show ?case
    using tl(2,3) hd(2) by simp
qed

lemma switch_count:
  assumes "length df_car = length df_picked"
    and "set df_car \<subseteq> {0, 1, 2}" and "set df_picked \<subseteq> {0, 1, 2}"
  shows "num_times_we_got_the_car_switching df_car df_picked =
     (if filter (\<lambda>(c, p). c \<noteq> p) (zip df_car df_picked) = [] then Inl KeyError
      else Inr (length (filter (\<lambda>(c, p). c \<noteq> p) (zip df_car df_picked))))"
proof -
  from df_changed_mind_doors [OF assms] obtain changed where
    ch: "df_changed_mind df_car df_picked = Inr changed" "length changed = length df_car"
    "map2 (=) df_car changed = map (\<lambda>(c, p). c \<noteq> p) (zip df_car df_picked)"
    by blast
  have "num_times_we_got_the_car_switching df_car df_picked =
          series_getitem (value_counts (map2 (=) df_car changed)) True"
    using ch(1,2)
    by (simp add: num_times_we_got_the_car_switching_def series_eq_def bind_err_def)
  then show ?thesis
    by (simp only: ch(3) series_count_True)
qed

text \<open>The switch evaluation on two columns of \<open>num_trials\<close> doors.\<close>

lemma switch_value:
  assumes "length df_car = num_trials" and "length df_picked = num_trials"
    and "set df_car \<subseteq> {0, 1, 2}" and "set df_picked \<subseteq> {0, 1, 2}"
  shows "approximate_P_switching num_trials df_car df_picked =
     (if filter (\<lambda>(c, p). c \<noteq> p) (zip df_car df_picked) = [] then Inl KeyError
      else Inr (Finite (of_nat (length (filter (\<lambda>(c, p). c \<noteq> p) (zip df_car df_picked)))
                          / of_nat num_trials)))"
proof (cases "filter (\<lambda>(c, p). c \<noteq> p) (zip df_car df_picked) = []")
  case True
  then show ?thesis
    using assms by (simp add: approximate_P_switching_def switch_count bind_err_def)
next
  case False
  then have "zip df_car df_picked \<noteq> []"
    by auto
  then have "num_trials \<noteq> 0"
    using assms by auto
  then show ?thesis
    using assms False
    by (simp add: approximate_P_switching_def switch_count bind_err_def true_divide_def)
qed

text \<open>Every trial is a match of exactly one of the two strategies.\<close>

lemma matches_partition:
  "length (filter (\<lambda>(c, p). c = p) zs) + length (filter (\<lambda>(c, p). c \<noteq> p) zs) = length zs"
  by (induction zs) auto

text \<open>
  When both evaluations return, the two quotients add up to one (in the exact
  arithmetic of the model).
\<close>

lemma stay_switch_complement:
  assumes len: "length df_car = num_trials" "length df_picked = num_trials"
    and doors: "set df_car \<subseteq> {0, 1, 2}" "set df_picked \<subseteq> {0, 1, 2}"
    and stay: "approximate_P_staying num_trials df_car df_picked = Inr p_stay"
    and switch: "approximate_P_switching num_trials df_car df_picked = Inr p_switch"
  shows "\<exists>a b. p_stay = Finite a \<and> p_switch = Finite b \<and> a = 1 - b"
proof -
  let ?m = "length (filter (\<lambda>(c, p). c = p) (zip df_car df_picked))"
  let ?k = "length (filter (\<lambda>(c, p). c \<noteq> p) (zip df_car df_picked))"
  have a: "p_stay = Finite (of_nat ?m / of_nat num_trials)"
    using stay stay_value [OF len] by (simp split: if_splits)
  have b: "p_switch = Finite (of_nat ?k / of_nat num_trials)"
    using switch switch_value [OF len doors] by (simp split: if_splits)
  have "filter (\<lambda>(c, p). c = p) (zip df_car df_picked) \<noteq> []"
    using stay stay_value [OF len] by (simp split: if_splits)
  then have n: "num_trials \<noteq> 0"
    using len by auto
  have "?m + ?k = num_trials"
    using matches_partition [of "zip df_car df_picked"] len by simp
  then have "(of_nat ?m :: rat) + of_nat ?k = of_nat num_trials"
    by (metis of_nat_add)
  then have "(of_nat ?m :: rat) / of_nat num_trials = 1 - of_nat ?k / of_nat num_trials"
    using n by (simp add: field_simps)
  with a b show ?thesis
    by simp
qed

text \<open>
  The notebook runs through exactly when some trial matches and some trial does not.
\<close>

lemma notebook_value:
  assumes len: "length df_car = num_trials" "length df_picked = num_trials"
    and doors: "set df_car \<subseteq> {0, 1, 2}" "set df_picked \<subseteq> {0, 1, 2}"
  shows "notebook num_trials df_car df_picked =
     (if filter (\<lambda>(c, p). c = p) (zip df_car df_picked) = [] \<or>
         filter (\<lambda>(c, p). c \<noteq> p) (zip df_car df_picked) = []
      then Inl KeyError
      else Inr (Finite (of_nat (length (filter (\<lambda>(c, p). c = p) (zip df_car df_picked)))
                          / of_nat num_trials),
                Finite (of_nat (length (filter (\<lambda>(c, p). c \<noteq> p) (zip df_car df_picked)))
                          / of_nat num_trials)))"
  by (simp add: notebook_def stay_value [OF len] switch_value [OF len doors] bind_err_def)

subsection \<open>The claims about the evaluations\<close>

text \<open>
  Claim C7. On three trials with prizes behind doors 0, 1, 2 and door 0 picked every
  time, staying matches once (the first trial), so the stay evaluation is 1/3; the
  switched picks are 2, 1, 2, none of them door 0, they match twice, and the switch
  evaluation is 2/3.
\<close>

theorem three_trial_scenario:
  "series_eq [0, 1, 2] [0, 0, 0] = Inr [True, False, False] \<and>
   num_times_we_got_the_car_staying [0, 1, 2] [0, 0, 0] = Inr 1 \<and>
   approximate_P_staying 3 [0, 1, 2] [0, 0, 0] = Inr (Finite (1 / 3)) \<and>
   df_changed_mind [0, 1, 2] [0, 0, 0] = Inr [2, 1, 2] \<and>
   0 \<notin> set [2, 1, 2 :: int] \<and>
   num_times_we_got_the_car_switching [0, 1, 2] [0, 0, 0] = Inr 2 \<and>
   approximate_P_switching 3 [0, 1, 2] [0, 0, 0] = Inr (Finite (2 / 3))"
  by (simp add: stay_defs switch_defs change_mind_defs)

text \<open>
  Claim C4 says that the stay evaluation of two columns of \<open>N > 0\<close> entries is the
  number of positions where prize and pick agree, divided by \<open>N\<close>. On one trial with
  the prize behind door 0 and door 1 picked no position agrees, and the evaluation
  raises KeyError where the claim has 0 / 1: the value counts hold no entry for
  \<open>True\<close>. Lemma \<open>stay_value\<close> gives the claimed quotient whenever some position agrees.
\<close>

theorem stay_without_match_raises:
  "length (filter (\<lambda>(c, p). c = p) (zip [0] [1 :: int])) = 0 \<and>
   approximate_P_staying 1 [0] [1] = Inl KeyError"
  by (simp add: stay_defs)

text \<open>
  Claim C5 says that the switch evaluation is the number of positions where the
  switched pick is the prize door, divided by \<open>N\<close>. On two trials where the picked
  door hides the prize both times the switched picks are 2 and 1, neither is the prize
  door, and the evaluation raises KeyError where the claim has 0 / 2.
  Lemma \<open>switch_value\<close> gives the claimed quotient whenever some switched pick matches.
\<close>

theorem switch_without_match_raises:
  "df_changed_mind [1, 2] [1, 2] = Inr [2, 1] \<and>
   series_eq [1, 2] [2, 1] = Inr [False, False] \<and>
   approximate_P_switching 2 [1, 2] [1, 2] = Inl KeyError"
  by (simp add: switch_defs change_mind_defs)

text \<open>
  Claim C6 says that for \<open>N > 0\<close> and columns of doors the whole computation ends
  without an error. On three trials with prizes behind doors 0, 1, 2 and picks 1, 2, 0
  no pick is right, and the notebook stops in cell 4 with KeyError; with picks
  0, 1, 2 every pick is right, cell 4 displays 1 and cell 6 stops with KeyError.
\<close>

theorem notebook_raises:
  "notebook 3 [0, 1, 2] [1, 2, 0] = Inl KeyError \<and>
   approximate_P_staying 3 [0, 1, 2] [0, 1, 2] = Inr (Finite 1) \<and>
   notebook 3 [0, 1, 2] [0, 1, 2] = Inl KeyError"
  by (simp add: notebook_def stay_defs switch_defs change_mind_defs)

text \<open>
  Claim C8 says that on a single trial both evaluations give exactly 0 or exactly 1.
  With the prize behind door 1 and door 2 picked, switching wins and its evaluation
  is 1, but the stay evaluation raises KeyError where the claim has 0; with door 1
  picked, staying wins and its evaluation is 1, but the switch evaluation raises.
\<close>

theorem single_trial_raises:
  "approximate_P_staying 1 [1] [2] = Inl KeyError \<and>
   approximate_P_switching 1 [1] [2] = Inr (Finite 1) \<and>
   approximate_P_staying 1 [1] [1] = Inr (Finite 1) \<and>
   approximate_P_switching 1 [1] [1] = Inl KeyError"
  by (simp add: stay_defs switch_defs change_mind_defs)

text \<open>
  Claim C9 says that the stay matches and the switch matches add up to \<open>N\<close>, so that
  the stay evaluation is one minus the switch evaluation. On two trials with the
  prize behind door 2 and door 2 picked both times, the stay count is 2 and the stay
  evaluation 1, but the switch count and the switch evaluation raise KeyError where
  the claim has 0. Lemmas \<open>matches_partition\<close> and \<open>stay_switch_complement\<close> give the
  claimed relation whenever both evaluations return.
\<close>

theorem complement_lost_when_all_match:
  "num_times_we_got_the_car_staying [2, 2] [2, 2] = Inr 2 \<and>
   approximate_P_staying 2 [2, 2] [2, 2] = Inr (Finite 1) \<and>
   num_times_we_got_the_car_switching [2, 2] [2, 2] = Inl KeyError \<and>
   approximate_P_switching 2 [2, 2] [2, 2] = Inl KeyError"
  by (simp add: stay_defs switch_defs change_mind_defs)

end
